theory Spec2Isabelle
  imports Complex_Main "HOL-Library.Product_Lexorder"
begin

section \<open>The sales dashboard script \<^verbatim>\<open>app2.py\<close>\<close>

text \<open>
  The script is one top-level Streamlit program: it loads the uploaded files, cleans the
  columns, applies the two filters, computes the key metrics and the report, and draws the
  charts. Each variable of the script becomes a definition of the same name over the rows
  it is computed from; the script as a whole becomes \<open>run\<close>, from the widget inputs to the
  page it leaves on the screen.

  Numbers: the script computes in IEEE double precision. Here an amount is an exact
  rational (\<^typ>\<open>rat\<close>) and a missing or unparseable cell (pandas NaN, NaT) is \<open>None\<close>;
  the rounding error of the float operations is not modelled.
\<close>

subsection \<open>Rows after data cleaning (lines 102 to 112)\<close>

type_synonym date = "int \<times> int \<times> int"  \<comment> \<open>year, month, day\<close>
type_synonym datetime = "date \<times> nat"  \<comment> \<open>the day and the seconds since midnight\<close>

text \<open>
  A row of \<open>df\<close> after \<^verbatim>\<open>pd.to_datetime(..., errors='coerce')\<close> and
  \<^verbatim>\<open>pd.to_numeric(..., errors='coerce')\<close>. Vendor identifiers are whole numbers.
\<close>

record row =
  Date :: "datetime option"
  Amount :: "rat option"
  Commission :: "rat option"
  Vat :: "rat option"
  Vid :: "int option"
  Channel_Type :: "string option"

text \<open>Line 112: \<^verbatim>\<open>df['Date_only'] = df['Date'].dt.date\<close>.\<close>

definition Date_only :: "row \<Rightarrow> date option" where
  "Date_only r = map_option fst (Date r)"

text \<open>
  \<^verbatim>\<open>Series.sum()\<close>: missing values are skipped, the empty sum is 0. The sum here is exact
  and unbounded; pandas adds a float column in double precision and a column of whole
  numbers in 64-bit integers, which wrap at \<open>2 ^ 63\<close>.
\<close>

definition series_sum :: "rat option list \<Rightarrow> rat" where
  "series_sum xs = sum_list (map (\<lambda>x. case x of None \<Rightarrow> 0 | Some v \<Rightarrow> v) xs)"

text \<open>\<^verbatim>\<open>Series.mean()\<close> of a series without missing values: NaN (\<open>None\<close>) when empty.\<close>

definition series_mean :: "rat list \<Rightarrow> rat option" where
  "series_mean xs = (if xs = [] then None else Some (sum_list xs / of_nat (length xs)))"

text \<open>\<^verbatim>\<open>frame[frame['Channel Type'] == c]\<close>.\<close>

definition channel_rows :: "string \<Rightarrow> row list \<Rightarrow> row list" where
  "channel_rows c frame = filter (\<lambda>r. Channel_Type r = Some c) frame"

subsection \<open>Rendering numbers\<close>

definition digit_char :: "nat \<Rightarrow> char" where
  "digit_char d = ''0123456789'' ! d"

function str_nat :: "nat \<Rightarrow> string" where
  "str_nat n = (if n < 10 then [digit_char n] else str_nat (n div 10) @ [digit_char (n mod 10)])"
  by pat_completeness auto
termination
  by (relation "measure id") auto

declare str_nat.simps [simp del]

definition str_int :: "int \<Rightarrow> string" where
  "str_int i = (if i < 0 then ''-'' else '''') @ str_nat (nat \<bar>i\<bar>)"

text \<open>Rounding to the nearest integer, a tie to the even neighbour.\<close>

definition round_half_even :: "rat \<Rightarrow> int" where
  "round_half_even x =
     (let f = \<lfloor>x\<rfloor>; d = x - of_int f
      in if d < 1 / 2 then f else if 1 / 2 < d then f + 1 else if even f then f else f + 1)"

text \<open>
  The format \<^verbatim>\<open>f"{x:.2f}"\<close>: two decimals, the sign kept also when the digits are all 0.
  Python rounds the double that stands for the value, so a decimal tie whose double is
  not exact (5.225, 2.675) can round the other way there; whole numbers and their
  hundredths up to \<open>2 ^ 53\<close> print the same.
\<close>

definition fmt2 :: "rat \<Rightarrow> string" where
  "fmt2 x =
     (let n = nat (round_half_even (\<bar>x\<bar> * 100))
      in (if x < 0 then ''-'' else '''') @ str_nat (n div 100) @ ''.'' @
         [digit_char (n mod 100 div 10), digit_char (n mod 10)])"

subsection \<open>Key metrics (lines 160 to 176)\<close>

text \<open>
  Every definition takes the view it is computed from (\<open>metrics_df\<close> in the script) and,
  where the script uses \<^verbatim>\<open>len(dfs)\<close>, the number \<open>n\<close> of loaded files.
\<close>

definition c2b_metrics :: "row list \<Rightarrow> row list" where
  "c2b_metrics metrics_df = channel_rows ''C2B'' metrics_df"

definition total_revenue :: "row list \<Rightarrow> rat" where
  "total_revenue metrics_df = series_sum (map Amount (c2b_metrics metrics_df))"

definition total_refunds :: "row list \<Rightarrow> rat" where
  "total_refunds metrics_df = \<bar>series_sum (map Amount (channel_rows ''REFUND'' metrics_df))\<bar>"

definition bank_transfer_charges :: "nat \<Rightarrow> rat" where
  "bank_transfer_charges n = 50 * of_nat n"

definition vat_bank_transfer :: "nat \<Rightarrow> rat" where
  "vat_bank_transfer n = bank_transfer_charges n * (16 / 100)"

definition nayax_commission :: "row list \<Rightarrow> rat" where
  "nayax_commission metrics_df = series_sum (map Amount (c2b_metrics metrics_df)) * (1 / 100)"

definition bck_commission :: "row list \<Rightarrow> rat" where
  "bck_commission metrics_df = series_sum (map Amount (c2b_metrics metrics_df)) * (5 / 1000)"

definition ipay_commission :: "row list \<Rightarrow> rat" where
  "ipay_commission metrics_df = series_sum (map Commission metrics_df)"

definition total_vat :: "row list \<Rightarrow> rat" where
  "total_vat metrics_df = series_sum (map Vat metrics_df)"

definition amount_to_remit :: "nat \<Rightarrow> row list \<Rightarrow> rat" where
  "amount_to_remit n metrics_df =
     total_revenue metrics_df -
       (total_refunds metrics_df + ipay_commission metrics_df + bank_transfer_charges n +
        vat_bank_transfer n + nayax_commission metrics_df + bck_commission metrics_df +
        total_vat metrics_df)"

text \<open>The three rows of Scenario A, in one file.\<close>

definition scenario_A :: "row list" where
  "scenario_A =
     [\<lparr>Date = None, Amount = Some 1000, Commission = None, Vat = None,
        Vid = Some 254499, Channel_Type = Some ''C2B''\<rparr>,
      \<lparr>Date = None, Amount = Some (- 200), Commission = None, Vat = None,
        Vid = Some 254499, Channel_Type = Some ''REFUND''\<rparr>,
      \<lparr>Date = None, Amount = None, Commission = Some 5, Vat = Some 10,
        Vid = Some 254499, Channel_Type = Some ''BANKCOST''\<rparr>]"

subsection \<open>Average daily revenue (lines 185 to 190)\<close>

text \<open>
  \<^verbatim>\<open>frame.groupby('Date_only')['Amount'].sum()\<close>: one entry for each date that occurs,
  in ascending order; rows without a date belong to no group.
\<close>

definition daily_rev :: "row list \<Rightarrow> (date \<times> rat) list" where
  "daily_rev frame =
     map (\<lambda>d. (d, series_sum (map Amount (filter (\<lambda>r. Date_only r = Some d) frame))))
       (sort (remdups (List.map_filter Date_only frame)))"

definition avg_daily :: "row list \<Rightarrow> rat option" where
  "avg_daily metrics_df = series_mean (map snd (daily_rev metrics_df))"

text \<open>The text of the tile: the mean with two decimals, \<^verbatim>\<open>nan\<close> for the mean of no day.\<close>

definition avg_daily_revenue :: "row list \<Rightarrow> string" where
  "avg_daily_revenue metrics_df =
     (if length (remdups (map Date_only metrics_df)) > 0
      then (case avg_daily metrics_df of None \<Rightarrow> ''nan'' | Some a \<Rightarrow> fmt2 a)
      else ''0.00'')"

text \<open>
  The rule as the specification words it: the mean over the dates of the C2B rows of the
  per-date sums of Amount over the C2B rows, zero when no C2B row has a date.
\<close>

definition spec_avg_daily_revenue :: "row list \<Rightarrow> rat" where
  "spec_avg_daily_revenue view =
     (let c2b = channel_rows ''C2B'' view;
          days = remdups (List.map_filter Date_only c2b)
      in if days = [] then 0
         else sum_list (map (\<lambda>d. series_sum (map Amount (filter (\<lambda>r. Date_only r = Some d) c2b))) days)
              / of_nat (length days))"

subsection \<open>The tiles (lines 178 to 215)\<close>

definition key_metrics :: "nat \<Rightarrow> row list \<Rightarrow> (string \<times> string) list" where
  "key_metrics n metrics_df =
     [(''Total Revenue (KES)'', fmt2 (total_revenue metrics_df)),
      (''Avg Daily Revenue (KES)'', avg_daily_revenue metrics_df),
      (''Total C2B Transactions'', str_nat (length (c2b_metrics metrics_df))),
      (''Ipay Commissions (KES)'', fmt2 (ipay_commission metrics_df)),
      (''Total VAT (KES)'', fmt2 (total_vat metrics_df)),
      (''Total Refunds (KES)'', fmt2 (total_refunds metrics_df)),
      (''Bank Transfer Charges (KES)'', fmt2 (bank_transfer_charges n)),
      (''VAT on Bank Transfer (KES)'', fmt2 (vat_bank_transfer n)),
      (''Nayax Commission (KES)'', fmt2 (nayax_commission metrics_df)),
      (''BCK Commission (KES)'', fmt2 (bck_commission metrics_df)),
      (''Amount to be Remitted (KES)'', fmt2 (amount_to_remit n metrics_df))]"

subsection \<open>Loading the files (lines 82 to 100)\<close>

datatype dtype = Int64 | Float64

text \<open>
  What \<^verbatim>\<open>pd.read_csv(file, sep='\t', skiprows=1, header=0)\<close> makes of one file: the header
  names and the rows. \<open>vid_dtype\<close> is \<open>Int64\<close> when every Vid cell of the file is written as
  a whole number.
\<close>

record table =
  columns :: "string list"
  vid_dtype :: dtype
  rows :: "row list"

text \<open>An uploaded file: its name, and the table read from it or the message pandas raises.\<close>

record uploaded_file =
  name :: string
  read_csv :: "string + table"

datatype py_exception = KeyError string | NameError string | TypeError string | ParserError string

fun str_exception :: "py_exception \<Rightarrow> string" where
  "str_exception (KeyError k) = k"
| "str_exception (NameError v) = ''name '' @ [CHR 0x27] @ v @ [CHR 0x27] @ '' is not defined''"
| "str_exception (TypeError m) = m"
| "str_exception (ParserError m) = m"

text \<open>How the script ends early: \<^verbatim>\<open>st.error(msg); st.stop()\<close>, or an exception.\<close>

datatype halt = Stop string | Raise py_exception

definition expected_columns :: "string list" where
  "expected_columns = [''Date'', ''Amount'', ''Commission'', ''Vat'', ''Vid'', ''Channel Type'']"

fun str_join :: "string \<Rightarrow> string list \<Rightarrow> string" where
  "str_join sep [] = []"
| "str_join sep [x] = x"
| "str_join sep (x # y # ys) = x @ sep @ str_join sep (y # ys)"

definition schema_mismatch :: "string \<Rightarrow> string" where
  "schema_mismatch file_name =
     ''File '' @ file_name @ '' does not have the expected columns: '' @
     str_join '', '' expected_columns"

text \<open>The loop of lines 87 to 93, with the list \<open>dfs\<close> it appends to.\<close>

fun load_files :: "uploaded_file list \<Rightarrow> table list \<Rightarrow> halt + table list" where
  "load_files [] dfs = Inr dfs"
| "load_files (file # files) dfs =
     (case read_csv file of
        Inl e \<Rightarrow> Inl (Raise (ParserError e))
      | Inr df_temp \<Rightarrow>
          if \<not> list_all (\<lambda>col. col \<in> set (columns df_temp)) expected_columns
          then Inl (Stop (schema_mismatch (name file)))
          else load_files files (dfs @ [df_temp]))"

text \<open>
  The Vid column of the concatenation is integer-typed only when every file's is and no
  cell is missing; otherwise it is a float column.
\<close>

definition concat_dtype :: "table list \<Rightarrow> dtype" where
  "concat_dtype dfs =
     (if list_all (\<lambda>t. vid_dtype t = Int64 \<and> list_all (\<lambda>r. Vid r \<noteq> None) (rows t)) dfs
      then Int64 else Float64)"

text \<open>Lines 84 to 100: the number of files, the type of the Vid column, and the rows of \<open>df\<close>.\<close>

definition load :: "uploaded_file list \<Rightarrow> halt + (nat \<times> dtype \<times> row list)" where
  "load uploaded_files =
     (case load_files uploaded_files [] of
        Inl h \<Rightarrow> Inl h
      | Inr dfs \<Rightarrow>
          if dfs \<noteq> [] then Inr (length dfs, concat_dtype dfs, concat (map rows dfs))
          else Inl (Stop ''No valid data loaded from the uploaded files.''))"

subsection \<open>Filters (lines 117 to 147)\<close>

text \<open>The options of the two multiselect widgets, which are also their defaults.\<close>

definition unique :: "'a list \<Rightarrow> 'a list" where
  "unique xs = rev (remdups (rev xs))"  \<comment> \<open>\<^verbatim>\<open>Series.unique()\<close>: the first occurrences, in order\<close>

definition channel_types :: "row list \<Rightarrow> string list" where
  "channel_types df = unique (List.map_filter Channel_Type df)"

definition vids :: "row list \<Rightarrow> int list" where
  "vids df = sort (remdups (List.map_filter Vid df))"

text \<open>
  Line 144. With an empty selection the index is the scalar \<^verbatim>\<open>True\<close>, which pandas looks
  up as a column label: \<^verbatim>\<open>df[True]\<close> raises \<^verbatim>\<open>KeyError: True\<close>.
\<close>

definition metrics_df :: "row list \<Rightarrow> int list \<Rightarrow> py_exception + row list" where
  "metrics_df df selected_vids =
     (if selected_vids \<noteq> []
      then Inr (filter (\<lambda>r. case Vid r of None \<Rightarrow> False | Some v \<Rightarrow> v \<in> set selected_vids) df)
      else Inl (KeyError ''True''))"

text \<open>Line 147, on the rows of \<open>metrics_df\<close>.\<close>

definition filtered_df :: "row list \<Rightarrow> string list \<Rightarrow> row list" where
  "filtered_df metrics_rows selected_channels =
     filter (\<lambda>r. case Channel_Type r of None \<Rightarrow> False | Some c \<Rightarrow> c \<in> set selected_channels)
       metrics_rows"

subsection \<open>Vendor mapping (lines 149 to 158)\<close>

datatype pykey = KStr string | KInt int

text \<open>
  The value of \<^verbatim>\<open>eval(mapping_input)\<close>: a dictionary to display names, or an object that
  \<^verbatim>\<open>Series.map\<close> rejects with the \<^verbatim>\<open>TypeError\<close> of the given message. The evaluator is
  Python's; the definitions below take it as the parameter \<open>py_eval\<close>, \<open>Inl\<close> the message
  of the exception it raises. A numeric key is an integer, as the vendor identifiers are.
  Texts that evaluate to a function or that end the process are outside this model.
\<close>

datatype pyobj = Dict "pykey \<rightharpoonup> string" | NotMapping string

text \<open>
  The characters that \<^verbatim>\<open>str.strip()\<close> removes, as the bytes of their UTF-8 encoding: the
  ASCII ones (U+0009 to U+000D, U+001C to U+0020), then U+0085, U+00A0, U+1680, U+2000 to
  U+200A, U+2028, U+2029, U+202F, U+205F and U+3000.
\<close>

definition whitespace :: "string list" where
  "whitespace =
     [[CHR 0x09], [CHR 0x0A], [CHR 0x0B], [CHR 0x0C], [CHR 0x0D],
      [CHR 0x1C], [CHR 0x1D], [CHR 0x1E], [CHR 0x1F], [CHR 0x20],
      [CHR 0xC2, CHR 0x85], [CHR 0xC2, CHR 0xA0], [CHR 0xE1, CHR 0x9A, CHR 0x80],
      [CHR 0xE2, CHR 0x80, CHR 0x80], [CHR 0xE2, CHR 0x80, CHR 0x81],
      [CHR 0xE2, CHR 0x80, CHR 0x82], [CHR 0xE2, CHR 0x80, CHR 0x83],
      [CHR 0xE2, CHR 0x80, CHR 0x84], [CHR 0xE2, CHR 0x80, CHR 0x85],
      [CHR 0xE2, CHR 0x80, CHR 0x86], [CHR 0xE2, CHR 0x80, CHR 0x87],
      [CHR 0xE2, CHR 0x80, CHR 0x88], [CHR 0xE2, CHR 0x80, CHR 0x89],
      [CHR 0xE2, CHR 0x80, CHR 0x8A], [CHR 0xE2, CHR 0x80, CHR 0xA8],
      [CHR 0xE2, CHR 0x80, CHR 0xA9], [CHR 0xE2, CHR 0x80, CHR 0xAF],
      [CHR 0xE2, CHR 0x81, CHR 0x9F], [CHR 0xE3, CHR 0x80, CHR 0x80]]"

text \<open>The number of bytes of the whitespace character a text starts with, 0 if none.\<close>

definition space_len :: "string \<Rightarrow> nat" where
  "space_len s =
     (case find (\<lambda>w. take (length w) s = w) whitespace of None \<Rightarrow> 0 | Some w \<Rightarrow> length w)"

fun lstrip :: "string \<Rightarrow> string" where
  "lstrip [] = []"
| "lstrip (c # cs) =
     (if space_len (c # cs) = 0 then c # cs else lstrip (drop (space_len (c # cs) - 1) cs))"

text \<open>
  The encodings read backwards are again free of prefixes of one another, so the end of a
  text is stripped as the start of its reverse.
\<close>

definition space_len_end :: "string \<Rightarrow> nat" where
  "space_len_end s =
     (case find (\<lambda>w. take (length w) s = rev w) whitespace of None \<Rightarrow> 0 | Some w \<Rightarrow> length w)"

fun rstrip_rev :: "string \<Rightarrow> string" where
  "rstrip_rev [] = []"
| "rstrip_rev (c # cs) =
     (if space_len_end (c # cs) = 0 then c # cs
      else rstrip_rev (drop (space_len_end (c # cs) - 1) cs))"

definition strip :: "string \<Rightarrow> string" where
  "strip s = rev (rstrip_rev (rev (lstrip s)))"

definition default_vendor_map :: "pykey \<rightharpoonup> string" where
  "default_vendor_map = [KInt 254499 \<mapsto> ''Vendlite'']"

definition invalid_mapping :: "string \<Rightarrow> string" where
  "invalid_mapping e =
     ''Invalid mapping format: '' @ e @ ''. Using default mapping (254499: Vendlite).''"

text \<open>The messages sent to \<^verbatim>\<open>st.sidebar.error\<close> and the \<open>vendor_map\<close> in force afterwards.\<close>

definition parse_vendor_map ::
  "(string \<Rightarrow> string + pyobj) \<Rightarrow> string \<Rightarrow> string list \<times> (pykey \<rightharpoonup> string)" where
  "parse_vendor_map py_eval mapping_input =
     (if strip mapping_input \<noteq> []
      then (case py_eval mapping_input of
              Inl e \<Rightarrow> ([invalid_mapping e], default_vendor_map)
            | Inr (NotMapping e) \<Rightarrow> ([invalid_mapping e], default_vendor_map)
            | Inr (Dict vendor_map) \<Rightarrow> ([], vendor_map))
      else ([], Map.empty))"

text \<open>
  \<^verbatim>\<open>frame['Vid'].astype(str)\<close>, cell by cell. A float column prints a whole number with
  all its digits and \<^verbatim>\<open>.0\<close> only below \<open>10 ^ 16\<close>; from there on Python writes the exponent
  form (\<^verbatim>\<open>1e+16\<close>), which this definition does not follow.
\<close>

definition astype_str :: "dtype \<Rightarrow> int option \<Rightarrow> string" where
  "astype_str t v =
     (case v of
        None \<Rightarrow> ''nan''
      | Some i \<Rightarrow> (case t of Int64 \<Rightarrow> str_int i | Float64 \<Rightarrow> str_int i @ ''.0''))"

text \<open>\<^verbatim>\<open>frame['Vid'].map(vendor_map).fillna(frame['Vid'].astype(str))\<close>, for one row.\<close>

definition Vendor_Name :: "dtype \<Rightarrow> (pykey \<rightharpoonup> string) \<Rightarrow> row \<Rightarrow> string" where
  "Vendor_Name t vendor_map r =
     (case (case Vid r of None \<Rightarrow> None | Some i \<Rightarrow> vendor_map (KInt i)) of
        Some shown \<Rightarrow> shown
      | None \<Rightarrow> astype_str t (Vid r))"

subsection \<open>The report (lines 217 to 270)\<close>

definition c2b_filtered :: "row list \<Rightarrow> row list" where
  "c2b_filtered report_rows = channel_rows ''C2B'' report_rows"

definition report_total_revenue :: "row list \<Rightarrow> rat" where
  "report_total_revenue report_rows = series_sum (map Amount (c2b_filtered report_rows))"

definition report_total_refunds :: "row list \<Rightarrow> rat" where
  "report_total_refunds report_rows =
     \<bar>series_sum (map Amount (channel_rows ''REFUND'' report_rows))\<bar>"

definition report_bank_transfer_charges :: "nat \<Rightarrow> row list \<Rightarrow> rat" where
  "report_bank_transfer_charges n report_rows =
     (if Some ''BANKCOST'' \<in> set (map Channel_Type report_rows) then 50 * of_nat n else 0)"

definition report_vat_bank_transfer :: "nat \<Rightarrow> row list \<Rightarrow> rat" where
  "report_vat_bank_transfer n report_rows =
     report_bank_transfer_charges n report_rows * (16 / 100)"

definition report_nayax_commission :: "row list \<Rightarrow> rat" where
  "report_nayax_commission report_rows =
     series_sum (map Amount (c2b_filtered report_rows)) * (1 / 100)"

definition report_bck_commission :: "row list \<Rightarrow> rat" where
  "report_bck_commission report_rows =
     series_sum (map Amount (c2b_filtered report_rows)) * (5 / 1000)"

definition report_ipay_commission :: "row list \<Rightarrow> rat" where
  "report_ipay_commission report_rows = series_sum (map Commission report_rows)"

definition report_total_vat :: "row list \<Rightarrow> rat" where
  "report_total_vat report_rows = series_sum (map Vat report_rows)"

definition report_amount_to_remit :: "nat \<Rightarrow> row list \<Rightarrow> rat" where
  "report_amount_to_remit n report_rows =
     report_total_revenue report_rows -
       (report_total_refunds report_rows + report_ipay_commission report_rows +
        report_bank_transfer_charges n report_rows + report_vat_bank_transfer n report_rows +
        report_nayax_commission report_rows + report_bck_commission report_rows +
        report_total_vat report_rows)"

definition uploaded_files_str :: "uploaded_file list \<Rightarrow> string" where
  "uploaded_files_str uploaded_files = str_join '', '' (map name uploaded_files)"

text \<open>Line 222: an empty selection is written as \<^verbatim>\<open>All\<close>.\<close>

definition filters_applied :: "dtype \<Rightarrow> string list \<Rightarrow> int list \<Rightarrow> string" where
  "filters_applied t selected_channels selected_vids =
     ''Channel Types: '' @
     (if selected_channels \<noteq> [] then str_join '', '' selected_channels else ''All'') @
     '', Vendor IDs: '' @
     (if selected_vids \<noteq> [] then str_join '', '' (map (\<lambda>v. astype_str t (Some v)) selected_vids)
      else ''All'')"

text \<open>
  The rows of \<open>report_df\<close>, without the two that need the clock and the date range
  (\<^verbatim>\<open>Generated On\<close>, \<^verbatim>\<open>Date Range\<close>).
\<close>

definition report_data ::
  "uploaded_file list \<Rightarrow> nat \<Rightarrow> dtype \<Rightarrow> row list \<Rightarrow> string list \<Rightarrow> int list \<Rightarrow>
   (string \<times> string) list" where
  "report_data uploaded_files n t report_rows selected_channels selected_vids =
     [(''Uploaded Files'', uploaded_files_str uploaded_files),
      (''Filters Applied'', filters_applied t selected_channels selected_vids),
      (''Total Revenue'', fmt2 (report_total_revenue report_rows)),
      (''Total Refunds'', fmt2 (report_total_refunds report_rows)),
      (''Ipay Commissions'', fmt2 (report_ipay_commission report_rows)),
      (''Bank Transfer Charges'', fmt2 (report_bank_transfer_charges n report_rows)),
      (''VAT on Bank Transfer (16%)'', fmt2 (report_vat_bank_transfer n report_rows)),
      (''Nayax Commission (1% of C2B)'', fmt2 (report_nayax_commission report_rows)),
      (''BCK Commission (0.5% of C2B)'', fmt2 (report_bck_commission report_rows)),
      (''Total VAT'', fmt2 (report_total_vat report_rows)),
      (''Amount to be Remitted'', fmt2 (report_amount_to_remit n report_rows))]"

subsection \<open>Charts and the data table (lines 294 to 364)\<close>

text \<open>
  The titles of the charts drawn. \<open>daily_revenue\<close> is assigned only when the view has a
  row (line 297), and read in any case (line 323).
\<close>

definition charts :: "row list \<Rightarrow> py_exception + string list" where
  "charts report_rows =
     (if length report_rows > 0
      then Inr ([''Cumulative Revenue Trend''] @
                (if length (daily_rev report_rows) > 0 then [''Daily Revenue''] else []) @
                (if length (c2b_filtered report_rows) > 0
                 then [''Revenue by Vendor (C2B Only)''] else []))
      else Inl (NameError ''daily_revenue''))"

subsection \<open>The script\<close>

text \<open>What the script leaves on the page.\<close>

record page =
  st_info :: "string list"
  st_error :: "string list"
  sidebar_error :: "string list"
  st_metric :: "(string \<times> string) list"
  report_df :: "(string \<times> string) list"
  st_plotly_chart :: "string list"
  st_dataframe :: "(row \<times> string) list"

definition blank :: page where
  "blank = \<lparr>st_info = [], st_error = [], sidebar_error = [], st_metric = [], report_df = [],
            st_plotly_chart = [], st_dataframe = []\<rparr>"

text \<open>The handler of line 366.\<close>

definition error_loading :: "py_exception \<Rightarrow> string" where
  "error_loading e =
     ''Error loading files: '' @ str_exception e @
     ''. Ensure all files are valid tab-separated files with the same structure.''"

text \<open>Lines 146 to 364, once \<open>metrics_df\<close> exists.\<close>

definition dashboard ::
  "(string \<Rightarrow> string + pyobj) \<Rightarrow> uploaded_file list \<Rightarrow> nat \<Rightarrow> dtype \<Rightarrow> row list \<Rightarrow>
   string list \<Rightarrow> int list \<Rightarrow> string \<Rightarrow> page" where
  "dashboard py_eval uploaded_files n t metrics_rows selected_channels selected_vids mapping_input =
     (let report_rows = filtered_df metrics_rows selected_channels;
          parsed = parse_vendor_map py_eval mapping_input;
          shown = blank\<lparr>sidebar_error := fst parsed,
                        st_metric := key_metrics n metrics_rows,
                        report_df := report_data uploaded_files n t report_rows
                                       selected_channels selected_vids\<rparr>
      in case charts report_rows of
           Inl e \<Rightarrow>
             shown\<lparr>st_info := [''No data available after applying filters. Adjust filters to view charts.''],
                   st_error := [error_loading e]\<rparr>
         | Inr titles \<Rightarrow>
             shown\<lparr>st_plotly_chart := titles,
                   st_dataframe := map (\<lambda>r. (r, Vendor_Name t (snd parsed) r)) report_rows\<rparr>)"

text \<open>
  The whole script, from the uploaded files, the two selections and the mapping text to
  the page.
\<close>

definition run ::
  "(string \<Rightarrow> string + pyobj) \<Rightarrow> uploaded_file list \<Rightarrow> string list \<Rightarrow> int list \<Rightarrow> string \<Rightarrow>
   page" where
  "run py_eval uploaded_files selected_channels selected_vids mapping_input =
     (if uploaded_files \<noteq> []
      then (case load uploaded_files of
              Inl (Stop msg) \<Rightarrow> blank\<lparr>st_error := [msg]\<rparr>
            | Inl (Raise e) \<Rightarrow> blank\<lparr>st_error := [error_loading e]\<rparr>
            | Inr (n, t, df) \<Rightarrow>
                (case metrics_df df selected_vids of
                   Inl e \<Rightarrow> blank\<lparr>st_error := [error_loading e]\<rparr>
                 | Inr metrics_rows \<Rightarrow>
                     dashboard py_eval uploaded_files n t metrics_rows
                       selected_channels selected_vids mapping_input))
      else blank\<lparr>st_info := [[CHR 0xF0, CHR 0x9F, CHR 0x91, CHR 0x86] @
             '' Please upload one or more tab-separated `.xls`, `.xlsx`, or `.csv` files to begin analysis.'']\<rparr>)"

subsection \<open>A predicate and the inputs used in the statements\<close>

text \<open>A file that passes lines 88 to 90: it is read, and it has every expected column.\<close>

definition accepted :: "uploaded_file \<Rightarrow> bool" where
  "accepted file =
     (case read_csv file of
        Inl e \<Rightarrow> False
      | Inr df_temp \<Rightarrow> list_all (\<lambda>col. col \<in> set (columns df_temp)) expected_columns)"


text \<open>A file holding the rows of Scenario A, and a file without the Vat column.\<close>

definition file_A :: uploaded_file where
  "file_A = \<lparr>name = ''sales.xls'',
             read_csv = Inr \<lparr>columns = expected_columns, vid_dtype = Float64, rows = scenario_A\<rparr>\<rparr>"

definition file_B :: uploaded_file where
  "file_B = \<lparr>name = ''bad.csv'',
             read_csv = Inr \<lparr>columns = [''Date'', ''Amount'', ''Commission'', ''Vid'', ''Channel Type''],
                              vid_dtype = Int64, rows = []\<rparr>\<rparr>"

text \<open>A view with one C2B row and no BANKCOST row.\<close>

definition c2_rows :: "row list" where
  "c2_rows =
     [\<lparr>Date = None, Amount = Some 1000, Commission = None, Vat = None,
        Vid = Some 254499, Channel_Type = Some ''C2B''\<rparr>]"

text \<open>A sale and a refund on the same day.\<close>

definition c4_rows :: "row list" where
  "c4_rows =
     [\<lparr>Date = Some ((2024, 1, 5), 36000), Amount = Some 1000, Commission = None, Vat = None,
        Vid = Some 254499, Channel_Type = Some ''C2B''\<rparr>,
      \<lparr>Date = Some ((2024, 1, 5), 43200), Amount = Some (- 200), Commission = None, Vat = None,
        Vid = Some 254499, Channel_Type = Some ''REFUND''\<rparr>]"



section \<open>Properties\<close>

subsection \<open>Unfolding and evaluation\<close>

lemmas metric_defs =
  total_revenue_def total_refunds_def bank_transfer_charges_def vat_bank_transfer_def
  nayax_commission_def bck_commission_def ipay_commission_def total_vat_def
  c2b_metrics_def channel_rows_def series_sum_def

lemmas render_defs = fmt2_def round_half_even_def str_nat.simps digit_char_def str_int_def

lemmas report_defs =
  report_total_revenue_def report_total_refunds_def report_bank_transfer_charges_def
  report_vat_bank_transfer_def report_nayax_commission_def report_bck_commission_def
  report_ipay_commission_def report_total_vat_def c2b_filtered_def

lemma fmt2_values:
  "fmt2 0 = ''0.00''" "fmt2 8 = ''8.00''" "fmt2 50 = ''50.00''" "fmt2 (- 58) = ''-58.00''"
  "fmt2 712 = ''712.00''" "fmt2 800 = ''800.00''" "fmt2 (- 200) = ''-200.00''"
  by (simp_all add: render_defs)

lemma avg_daily_revenue_A: "avg_daily_revenue scenario_A = ''nan''"
  by (simp add: avg_daily_revenue_def avg_daily_def daily_rev_def series_mean_def
      scenario_A_def Date_only_def List.map_filter_simps)

lemma key_metrics_Nil:
  "key_metrics n [] =
     [(''Total Revenue (KES)'', ''0.00''),
      (''Avg Daily Revenue (KES)'', ''0.00''),
      (''Total C2B Transactions'', ''0''),
      (''Ipay Commissions (KES)'', ''0.00''),
      (''Total VAT (KES)'', ''0.00''),
      (''Total Refunds (KES)'', ''0.00''),
      (''Bank Transfer Charges (KES)'', fmt2 (50 * of_nat n)),
      (''VAT on Bank Transfer (KES)'', fmt2 (8 * of_nat n)),
      (''Nayax Commission (KES)'', ''0.00''),
      (''BCK Commission (KES)'', ''0.00''),
      (''Amount to be Remitted (KES)'', fmt2 (- 58 * of_nat n))]"
proof -
  note z = fmt2_values(1)
  have r: "amount_to_remit n [] = - 58 * of_nat n"
    by (simp add: amount_to_remit_def metric_defs)
  show ?thesis
    unfolding key_metrics_def r
    by (simp add: metric_defs z avg_daily_revenue_def str_nat.simps digit_char_def)
qed


subsection \<open>The run, field by field\<close>

lemma st_metric_run:
  "st_metric (run py_eval uploaded_files selected_channels selected_vids mapping_input) =
     (if uploaded_files \<noteq> [] then
        (case load uploaded_files of
           Inl h \<Rightarrow> []
         | Inr (n, t, df) \<Rightarrow>
             (case metrics_df df selected_vids of Inl e \<Rightarrow> [] | Inr m \<Rightarrow> key_metrics n m))
      else [])"
  by (simp add: run_def dashboard_def blank_def Let_def split: sum.splits halt.splits prod.splits)




lemma run_halted:
  "uploaded_files \<noteq> [] \<Longrightarrow> load uploaded_files = Inl h \<Longrightarrow>
   st_metric (run py_eval uploaded_files selected_channels selected_vids mapping_input) = [] \<and>
   report_df (run py_eval uploaded_files selected_channels selected_vids mapping_input) = [] \<and>
   st_error (run py_eval uploaded_files selected_channels selected_vids mapping_input) \<noteq> []"
  by (cases h) (simp_all add: run_def blank_def)

subsection \<open>Loading\<close>

lemma schema_mismatch_text:
  "schema_mismatch f =
     ''File '' @ f @ '' does not have the expected columns: Date, Amount, Commission, Vat, Vid, Channel Type''"
  by (simp add: schema_mismatch_def expected_columns_def)

lemma load_files_accepted:
  "list_all accepted pre \<Longrightarrow>
   load_files (pre @ rest) dfs = load_files rest (dfs @ map (projr \<circ> read_csv) pre)"
proof (induction pre arbitrary: dfs)
  case Nil
  then show ?case by simp
next
  case (Cons f pre)
  then show ?case
    by (auto simp: accepted_def split: sum.splits)
qed

lemma load_files_rejects:
  assumes "file \<in> set uploaded_files" and "read_csv file = Inr df_temp"
    and "\<not> list_all (\<lambda>col. col \<in> set (columns df_temp)) expected_columns"
  shows "\<exists>h. load_files uploaded_files dfs = Inl h"
  using assms(1)
proof (induction uploaded_files arbitrary: dfs)
  case Nil
  then show ?case by simp
next
  case (Cons f fs)
  show ?case
  proof (cases "f = file")
    case True
    with assms(2,3) show ?thesis by simp
  next
    case False
    with Cons.prems have "file \<in> set fs" by simp
    from Cons.IH [OF this] show ?thesis
      by (simp split: sum.splits)
  qed
qed

lemma load_files_length:
  "load_files uploaded_files dfs = Inr dfs' \<Longrightarrow> length dfs' = length dfs + length uploaded_files"
proof (induction uploaded_files arbitrary: dfs)
  case Nil
  then show ?case by simp
next
  case (Cons f fs)
  then show ?case
    by (fastforce split: sum.splits if_splits)
qed

lemma load_count:
  "load uploaded_files = Inr (n, t, df) \<Longrightarrow> n = length uploaded_files"
  by (auto simp: load_def split: sum.splits if_splits dest: load_files_length)

lemma load_file_A: "load [file_A] = Inr (1, Float64, scenario_A)"
  by (simp add: load_def file_A_def concat_dtype_def expected_columns_def)

lemma vids_A: "vids scenario_A = [254499]"
  by (simp add: vids_def scenario_A_def List.map_filter_simps)

lemma channel_types_A: "channel_types scenario_A = [''C2B'', ''REFUND'', ''BANKCOST'']"
  by (simp add: channel_types_def unique_def scenario_A_def List.map_filter_simps)

lemma metrics_df_A: "metrics_df scenario_A [254499] = Inr scenario_A"
  by (simp add: metrics_df_def scenario_A_def)



subsection \<open>Grouping by date\<close>


lemma sum_groups_aux:
  "distinct ks \<Longrightarrow> set (List.map_filter key xs) \<subseteq> set ks \<Longrightarrow>
   sum_list (map (\<lambda>k. sum_list (map g (filter (\<lambda>r. key r = Some k) xs))) ks) =
   sum_list (map g (filter (\<lambda>r. key r \<noteq> None) xs))"
  for g :: "'a \<Rightarrow> rat"
proof (induction xs)
  case Nil
  then show ?case by simp
next
  case (Cons x xs)
  show ?case
  proof (cases "key x")
    case None
    with Cons show ?thesis by (simp add: List.map_filter_simps)
  next
    case (Some k)
    with Cons.prems have k: "k \<in> set ks" and sub: "set (List.map_filter key xs) \<subseteq> set ks"
      by (simp_all add: List.map_filter_simps)
    have "sum_list (map (\<lambda>k'. sum_list (map g (filter (\<lambda>r. key r = Some k') (x # xs)))) ks) =
          sum_list (map (\<lambda>k'. (if k' = k then g x else 0) +
                              sum_list (map g (filter (\<lambda>r. key r = Some k') xs))) ks)"
      by (rule arg_cong [where f = sum_list], rule map_cong) (auto simp: Some)
    also have "\<dots> = sum_list (map (\<lambda>k'. if k' = k then g x else 0) ks) +
                    sum_list (map (\<lambda>k'. sum_list (map g (filter (\<lambda>r. key r = Some k') xs))) ks)"
      by (simp add: sum_list_addf)
    also have "sum_list (map (\<lambda>k'. if k' = k then g x else 0) ks) = g x"
      using Cons.prems(1) k
      by (simp add: sum_list_distinct_conv_sum_set sum.delta)
    finally show ?thesis
      using Cons.IH [OF Cons.prems(1) sub] Some by simp
  qed
qed


lemma series_sum_Amount:
  "series_sum (map Amount xs) = sum_list (map (\<lambda>r. case Amount r of None \<Rightarrow> 0 | Some v \<Rightarrow> v) xs)"
  by (simp add: series_sum_def comp_def)

lemma daily_rev_keys:
  "distinct (sort (remdups (List.map_filter Date_only view)))"
  "set (sort (remdups (List.map_filter Date_only view))) = set (List.map_filter Date_only view)"
  "length (sort (remdups (List.map_filter Date_only view))) = card (set (List.map_filter Date_only view))"
  by (simp_all add: length_remdups_card_conv)

lemma sum_daily_rev:
  "sum_list (map snd (daily_rev view)) =
   series_sum (map Amount (filter (\<lambda>r. Date_only r \<noteq> None) view))"
proof -
  let ?ks = "sort (remdups (List.map_filter Date_only view))"
  let ?g = "\<lambda>r. case Amount r of None \<Rightarrow> (0::rat) | Some v \<Rightarrow> v"
  have "sum_list (map (\<lambda>k. sum_list (map ?g (filter (\<lambda>r. Date_only r = Some k) view))) ?ks) =
        sum_list (map ?g (filter (\<lambda>r. Date_only r \<noteq> None) view))"
    by (rule sum_groups_aux) (simp_all add: daily_rev_keys)
  then show ?thesis
    unfolding daily_rev_def series_sum_Amount by (simp add: comp_def)
qed

lemma sum_daily_rev_set:
  "sum_list (map snd (daily_rev view)) =
   (\<Sum>d\<in>set (List.map_filter Date_only view).
      series_sum (map Amount (filter (\<lambda>r. Date_only r = Some d) view)))"
  unfolding daily_rev_def
  by (simp add: comp_def sum_list_distinct_conv_sum_set)

lemma daily_rev_c4: "daily_rev c4_rows = [((2024, 1, 5), 800)]"
  by (simp add: daily_rev_def c4_rows_def Date_only_def List.map_filter_simps series_sum_def)







section \<open>The claims\<close>


text \<open>
  Claim C2 says that the report's amount to remit is the metrics formula, with the
  unconditional bank charge, on the rows passing both filters. On one file with a single
  C2B row of 1000, both filters passing it, the report gives 985 and that formula 927:
  the report charges the bank transfer only when the view has a BANKCOST row.
\<close>

theorem C2_counterexample:
  "metrics_df c2_rows [254499] = Inr c2_rows
   \<and> filtered_df c2_rows [''C2B''] = c2_rows
   \<and> report_amount_to_remit 1 (filtered_df c2_rows [''C2B'']) = 985
   \<and> amount_to_remit 1 (filtered_df c2_rows [''C2B'']) = 927"
  by (simp add: c2_rows_def metrics_df_def filtered_df_def report_amount_to_remit_def
      amount_to_remit_def report_defs metric_defs)

text \<open>
  Claim C2, amended. When the vendor filter gives a metrics view, the report view is
  exactly the rows of the data that pass both the vendor-ID and the channel-type filter,
  and the report's \<open>report_amount_to_remit\<close> on it is the metrics formula on those rows with
  the report's own rule for the bank charge (50 per file only if the view has a BANKCOST
  row, else 0, and 16 percent of that as its VAT). So it equals the metrics-view
  \<open>amount_to_remit\<close> of those rows when a BANKCOST row is present, and exceeds it by 58 per
  file otherwise.
\<close>

theorem C2_report_amount_to_remit:
  assumes "metrics_df df selected_vids = Inr m"
  shows "filtered_df m selected_channels =
           filter (\<lambda>r. (case Vid r of None \<Rightarrow> False | Some v \<Rightarrow> v \<in> set selected_vids) \<and>
                       (case Channel_Type r of None \<Rightarrow> False | Some c \<Rightarrow> c \<in> set selected_channels)) df
    \<and> report_amount_to_remit n (filtered_df m selected_channels) =
        total_revenue (filtered_df m selected_channels) -
          (total_refunds (filtered_df m selected_channels) +
           ipay_commission (filtered_df m selected_channels) +
           report_bank_transfer_charges n (filtered_df m selected_channels) +
           report_bank_transfer_charges n (filtered_df m selected_channels) * (16 / 100) +
           nayax_commission (filtered_df m selected_channels) +
           bck_commission (filtered_df m selected_channels) +
           total_vat (filtered_df m selected_channels))
    \<and> report_amount_to_remit n (filtered_df m selected_channels) =
        amount_to_remit n (filtered_df m selected_channels) +
          (if Some ''BANKCOST'' \<in> set (map Channel_Type (filtered_df m selected_channels))
           then 0 else 58 * of_nat n)"
proof -
  have a: "filtered_df m selected_channels =
           filter (\<lambda>r. (case Vid r of None \<Rightarrow> False | Some v \<Rightarrow> v \<in> set selected_vids) \<and>
                       (case Channel_Type r of None \<Rightarrow> False | Some c \<Rightarrow> c \<in> set selected_channels)) df"
    using assms by (auto simp: metrics_df_def filtered_df_def split: if_splits intro: filter_cong)
  have b: "report_amount_to_remit n view =
        total_revenue view -
          (total_refunds view + ipay_commission view + report_bank_transfer_charges n view +
           report_bank_transfer_charges n view * (16 / 100) +
           nayax_commission view + bck_commission view + total_vat view)" for view
    by (simp add: report_amount_to_remit_def report_total_revenue_def report_total_refunds_def
        report_vat_bank_transfer_def report_nayax_commission_def report_bck_commission_def
        report_ipay_commission_def report_total_vat_def c2b_filtered_def
        total_revenue_def total_refunds_def nayax_commission_def bck_commission_def
        ipay_commission_def total_vat_def c2b_metrics_def)
  have c: "report_amount_to_remit n view =
        amount_to_remit n view +
          (if Some ''BANKCOST'' \<in> set (map Channel_Type view) then 0 else 58 * of_nat n)" for view
    by (simp add: b amount_to_remit_def report_bank_transfer_charges_def
        bank_transfer_charges_def vat_bank_transfer_def)
  from a b c show ?thesis
    by blast
qed

theorem C2_report_amount_to_remit_witness:
  "metrics_df scenario_A [254499] = Inr scenario_A
   \<and> report_amount_to_remit 1 (filtered_df scenario_A [''C2B'', ''REFUND'', ''BANKCOST'']) = 712
   \<and> report_amount_to_remit 1 (filtered_df scenario_A [''C2B'', ''REFUND'']) = 785"
proof -
  have f1: "filtered_df scenario_A [''C2B'', ''REFUND'', ''BANKCOST''] = scenario_A"
    by (simp add: filtered_df_def scenario_A_def)
  have f2: "filtered_df scenario_A [''C2B'', ''REFUND''] = take 2 scenario_A"
    by (simp add: filtered_df_def scenario_A_def)
  have v1: "amount_to_remit (Suc 0) scenario_A = 712"
    by (simp add: amount_to_remit_def metric_defs scenario_A_def)
  have v2: "amount_to_remit (Suc 0) (take 2 scenario_A) = 727"
    by (simp add: amount_to_remit_def metric_defs scenario_A_def)
  have b1: "Some ''BANKCOST'' \<in> set (map Channel_Type scenario_A)"
    by (simp add: scenario_A_def)
  have b2: "Some ''BANKCOST'' \<notin> set (map Channel_Type (take 2 scenario_A))"
    by (simp add: scenario_A_def)
  from C2_report_amount_to_remit [OF metrics_df_A, where selected_channels = "[''C2B'', ''REFUND'', ''BANKCOST'']" and n = 1]
  have r1: "report_amount_to_remit 1 (filtered_df scenario_A [''C2B'', ''REFUND'', ''BANKCOST'']) =
        amount_to_remit 1 (filtered_df scenario_A [''C2B'', ''REFUND'', ''BANKCOST'']) +
          (if Some ''BANKCOST'' \<in> set (map Channel_Type (filtered_df scenario_A [''C2B'', ''REFUND'', ''BANKCOST'']))
           then 0 else 58 * of_nat 1)"
    by (elim conjE)
  from C2_report_amount_to_remit [OF metrics_df_A, where selected_channels = "[''C2B'', ''REFUND'']" and n = 1]
  have r2: "report_amount_to_remit 1 (filtered_df scenario_A [''C2B'', ''REFUND'']) =
        amount_to_remit 1 (filtered_df scenario_A [''C2B'', ''REFUND'']) +
          (if Some ''BANKCOST'' \<in> set (map Channel_Type (filtered_df scenario_A [''C2B'', ''REFUND'']))
           then 0 else 58 * of_nat 1)"
    by (elim conjE)
  have "report_amount_to_remit 1 (filtered_df scenario_A [''C2B'', ''REFUND'', ''BANKCOST'']) = 712"
    unfolding r1 unfolding f1 using b1 by (simp add: v1)
  moreover have "report_amount_to_remit 1 (filtered_df scenario_A [''C2B'', ''REFUND'']) = 785"
    unfolding r2 unfolding f2 using b2 by (simp add: v2)
  ultimately show ?thesis
    using metrics_df_A by simp
qed



text \<open>
  Claim C4 says that the average daily revenue is taken over the C2B rows only and is zero
  when no C2B row has a date. With a sale of 1000 and a refund of 200 on the same day the
  tile shows 800.00 where the C2B rows alone give 1000; with the refund alone it shows
  -200.00 where the claim gives zero.
\<close>

theorem C4_counterexample:
  "avg_daily c4_rows = Some 800 \<and> avg_daily_revenue c4_rows = ''800.00''
   \<and> spec_avg_daily_revenue c4_rows = 1000
   \<and> avg_daily_revenue (tl c4_rows) = ''-200.00''
   \<and> spec_avg_daily_revenue (tl c4_rows) = 0"
proof -
  have a: "avg_daily c4_rows = Some 800"
    by (simp add: avg_daily_def daily_rev_c4 series_mean_def)
  have b: "avg_daily_revenue c4_rows = ''800.00''"
    unfolding avg_daily_revenue_def a
    by (simp add: c4_rows_def Date_only_def fmt2_values)
  have c: "spec_avg_daily_revenue c4_rows = 1000"
    by (simp add: spec_avg_daily_revenue_def c4_rows_def channel_rows_def Date_only_def
        List.map_filter_simps series_sum_def)
  have "avg_daily (tl c4_rows) = Some (- 200)"
    by (simp add: avg_daily_def daily_rev_def series_mean_def c4_rows_def Date_only_def
        List.map_filter_simps series_sum_def)
  then have d: "avg_daily_revenue (tl c4_rows) = ''-200.00''"
    by (simp add: avg_daily_revenue_def c4_rows_def fmt2_values)
  have e: "spec_avg_daily_revenue (tl c4_rows) = 0"
    by (simp add: spec_avg_daily_revenue_def c4_rows_def channel_rows_def
        List.map_filter_simps)
  from a b c d e show ?thesis by simp
qed

text \<open>
  Claim C4, amended. On a metrics view with at least one dated row, the average daily
  revenue is the arithmetic mean, over the distinct non-null dates, of the per-date sums of
  Amount over all rows of that date, whatever their channel type; that is the sum of
  Amount over all dated rows divided by the number of distinct dates. The tile shows it
  with two decimals. On the view without rows the tile shows 0.00.
\<close>

theorem C4_avg_daily_all_channels:
  assumes "List.map_filter Date_only view \<noteq> []"
  shows "avg_daily view =
           Some ((\<Sum>d\<in>set (List.map_filter Date_only view).
                    series_sum (map Amount (filter (\<lambda>r. Date_only r = Some d) view)))
                 / of_nat (card (set (List.map_filter Date_only view))))
         \<and> avg_daily view =
           Some (series_sum (map Amount (filter (\<lambda>r. Date_only r \<noteq> None) view))
                 / of_nat (card (set (List.map_filter Date_only view))))
         \<and> avg_daily_revenue view =
           fmt2 (series_sum (map Amount (filter (\<lambda>r. Date_only r \<noteq> None) view))
                 / of_nat (card (set (List.map_filter Date_only view))))
         \<and> avg_daily_revenue [] = ''0.00''"
proof -
  have ne: "daily_rev view \<noteq> []"
  proof
    assume "daily_rev view = []"
    then have "length (sort (remdups (List.map_filter Date_only view))) = 0"
      by (simp add: daily_rev_def)
    then have "remdups (List.map_filter Date_only view) = []"
      by (simp del: length_0_conv add: length_0_conv [symmetric])
    with assms show False by simp
  qed
  have len: "length (daily_rev view) = card (set (List.map_filter Date_only view))"
    by (simp add: daily_rev_def length_remdups_card_conv)
  have a: "avg_daily view =
           Some (series_sum (map Amount (filter (\<lambda>r. Date_only r \<noteq> None) view))
                 / of_nat (card (set (List.map_filter Date_only view))))"
    using ne by (simp add: avg_daily_def series_mean_def sum_daily_rev len)
  have b: "avg_daily view =
           Some ((\<Sum>d\<in>set (List.map_filter Date_only view).
                    series_sum (map Amount (filter (\<lambda>r. Date_only r = Some d) view)))
                 / of_nat (card (set (List.map_filter Date_only view))))"
    using ne by (simp add: avg_daily_def series_mean_def sum_daily_rev_set len)
  have "view \<noteq> []"
    using assms by auto
  then have c: "avg_daily_revenue view =
           fmt2 (series_sum (map Amount (filter (\<lambda>r. Date_only r \<noteq> None) view))
                 / of_nat (card (set (List.map_filter Date_only view))))"
    by (simp add: avg_daily_revenue_def a)
  have d: "avg_daily_revenue [] = ''0.00''"
    by (simp add: avg_daily_revenue_def)
  from a b c d show ?thesis by simp
qed

theorem C4_avg_daily_witness:
  "List.map_filter Date_only c4_rows \<noteq> [] \<and> avg_daily c4_rows = Some (800 / 1)"
proof -
  have h: "List.map_filter Date_only c4_rows \<noteq> []"
    by (simp add: c4_rows_def Date_only_def List.map_filter_simps)
  have s: "series_sum (map Amount (filter (\<lambda>r. Date_only r \<noteq> None) c4_rows)) = 800"
    by (simp add: c4_rows_def Date_only_def series_sum_def)
  have k: "card (set (List.map_filter Date_only c4_rows)) = 1"
    by (simp add: c4_rows_def Date_only_def List.map_filter_simps)
  have "avg_daily c4_rows =
          Some (series_sum (map Amount (filter (\<lambda>r. Date_only r \<noteq> None) c4_rows))
                / of_nat (card (set (List.map_filter Date_only c4_rows))))"
    using C4_avg_daily_all_channels [OF h] by (elim conjE)
  then show ?thesis
    using h by (simp only: s k) simp
qed

text \<open>
  Claim C5 (empty selection as select-all), evaluated where the script departs from it.
  With the file of Scenario A and no vendor ID selected, line 144 raises \<^verbatim>\<open>KeyError: True\<close>
  and the page shows only the error of the top-level handler, whereas selecting every
  vendor ID shows the key metrics. With no channel type selected the report view is empty,
  whereas selecting every channel type keeps all rows; line 222 writes both empty
  selections as \<^verbatim>\<open>All\<close>.
\<close>

theorem C5_empty_selection:
  "run py_eval [file_A] (channel_types scenario_A) [] mapping_input =
     blank\<lparr>st_error := [''Error loading files: True. Ensure all files are valid tab-separated files with the same structure.'']\<rparr>
   \<and> st_metric (run py_eval [file_A] (channel_types scenario_A) (vids scenario_A) mapping_input) =
       key_metrics 1 scenario_A
   \<and> filtered_df scenario_A [] = []
   \<and> filtered_df scenario_A (channel_types scenario_A) = scenario_A
   \<and> filters_applied Float64 [] [] = ''Channel Types: All, Vendor IDs: All''"
proof -
  have a: "run py_eval [file_A] (channel_types scenario_A) [] mapping_input =
     blank\<lparr>st_error := [''Error loading files: True. Ensure all files are valid tab-separated files with the same structure.'']\<rparr>"
    by (simp add: run_def load_file_A metrics_df_def error_loading_def)
  have b: "st_metric (run py_eval [file_A] (channel_types scenario_A) (vids scenario_A) mapping_input) =
       key_metrics 1 scenario_A"
    by (simp add: st_metric_run load_file_A vids_A metrics_df_A)
  have c: "filtered_df scenario_A [] = []"
    by (simp add: filtered_df_def split: option.splits)
  have d: "filtered_df scenario_A (channel_types scenario_A) = scenario_A"
    unfolding channel_types_A by (simp add: filtered_df_def scenario_A_def)
  have e: "filters_applied Float64 [] [] = ''Channel Types: All, Vendor IDs: All''"
    by (simp add: filters_applied_def)
  from a b c d e show ?thesis by simp
qed

text \<open>
  Claim C6. The report's bank transfer charge is 0 when the report view has no row with
  channel type BANKCOST, and 50 times the number of loaded files when it has at least one,
  however many; the metrics-view charge is 50 times the number of files unconditionally.
  The number of loaded files is the number of uploaded files.
\<close>

theorem C6_bank_transfer_charges:
  "(channel_rows ''BANKCOST'' view = [] \<longrightarrow> report_bank_transfer_charges n view = 0)
   \<and> (channel_rows ''BANKCOST'' view \<noteq> [] \<longrightarrow> report_bank_transfer_charges n view = 50 * of_nat n)
   \<and> bank_transfer_charges n = 50 * of_nat n
   \<and> (load uploaded_files = Inr (n, t, df) \<longrightarrow> n = length uploaded_files)"
proof -
  have "load uploaded_files = Inr (n, t, df) \<longrightarrow> n = length uploaded_files"
    by (simp add: load_count)
  then show ?thesis
    by (force simp: report_bank_transfer_charges_def bank_transfer_charges_def channel_rows_def
        filter_empty_conv image_iff)
qed

theorem C6_bank_transfer_charges_witness:
  "channel_rows ''BANKCOST'' c2_rows = [] \<and> report_bank_transfer_charges 1 c2_rows = 0
   \<and> channel_rows ''BANKCOST'' scenario_A \<noteq> [] \<and> report_bank_transfer_charges 1 scenario_A = 50
   \<and> load [file_A] = Inr (1, Float64, scenario_A) \<and> 1 = length [file_A]"
proof -
  have a: "channel_rows ''BANKCOST'' c2_rows = []"
    by (simp add: channel_rows_def c2_rows_def)
  have b: "channel_rows ''BANKCOST'' scenario_A \<noteq> []"
    by (simp add: channel_rows_def scenario_A_def)
  from C6_bank_transfer_charges [where view = c2_rows and n = 1 and uploaded_files = "[file_A]"
      and t = Float64 and df = scenario_A] a
  have c: "report_bank_transfer_charges 1 c2_rows = 0"
    by blast
  from C6_bank_transfer_charges [where view = scenario_A and n = 1 and uploaded_files = "[file_A]"
      and t = Float64 and df = scenario_A] b
  have d: "report_bank_transfer_charges 1 scenario_A = 50 * of_nat 1"
    by blast
  from a b c d load_file_A show ?thesis
    by simp
qed



text \<open>
  Claim C8. If a file of the batch lacks one of the columns Date, Amount, Commission, Vat,
  Vid, Channel Type, loading fails: no row set is produced, the page shows an error and
  neither a metric nor the report. When the files before it are accepted, and so when it
  is the single file of the batch that is not, the error names that file and lists the
  expected columns, and nothing else is on the page.
\<close>

theorem C8_schema_mismatch:
  assumes "file \<in> set uploaded_files"
    and "read_csv file = Inr df_temp"
    and "\<not> list_all (\<lambda>col. col \<in> set (columns df_temp)) expected_columns"
  shows "(\<exists>h. load uploaded_files = Inl h)
    \<and> st_metric (run py_eval uploaded_files selected_channels selected_vids mapping_input) = []
    \<and> report_df (run py_eval uploaded_files selected_channels selected_vids mapping_input) = []
    \<and> st_error (run py_eval uploaded_files selected_channels selected_vids mapping_input) \<noteq> []
    \<and> (\<forall>pre post. uploaded_files = pre @ file # post \<longrightarrow> list_all accepted pre \<longrightarrow>
          load uploaded_files = Inl (Stop (schema_mismatch (name file)))
          \<and> run py_eval uploaded_files selected_channels selected_vids mapping_input =
              blank\<lparr>st_error := [''File '' @ name file @
                '' does not have the expected columns: Date, Amount, Commission, Vat, Vid, Channel Type'']\<rparr>)
    \<and> (list_all (\<lambda>g. g = file \<or> accepted g) uploaded_files \<longrightarrow>
          run py_eval uploaded_files selected_channels selected_vids mapping_input =
              blank\<lparr>st_error := [''File '' @ name file @
                '' does not have the expected columns: Date, Amount, Commission, Vat, Vid, Channel Type'']\<rparr>)"
proof -
  from load_files_rejects [OF assms] obtain h where "load_files uploaded_files [] = Inl h"
    by blast
  then have l: "load uploaded_files = Inl h"
    by (simp add: load_def)
  have first: "load uploaded_files = Inl (Stop (schema_mismatch (name file)))
          \<and> run py_eval uploaded_files selected_channels selected_vids mapping_input =
              blank\<lparr>st_error := [''File '' @ name file @
                '' does not have the expected columns: Date, Amount, Commission, Vat, Vid, Channel Type'']\<rparr>"
    if "uploaded_files = pre @ file # post" and "list_all accepted pre" for pre post
  proof -
    have "load_files uploaded_files [] = Inl (Stop (schema_mismatch (name file)))"
      using that assms(2,3) by (simp add: load_files_accepted)
    then have s: "load uploaded_files = Inl (Stop (schema_mismatch (name file)))"
      by (simp add: load_def)
    have "uploaded_files \<noteq> []"
      using that(1) by simp
    with s show ?thesis
      by (simp add: run_def schema_mismatch_text)
  qed
  have only: "run py_eval uploaded_files selected_channels selected_vids mapping_input =
              blank\<lparr>st_error := [''File '' @ name file @
                '' does not have the expected columns: Date, Amount, Commission, Vat, Vid, Channel Type'']\<rparr>"
    if others: "list_all (\<lambda>g. g = file \<or> accepted g) uploaded_files"
  proof -
    from assms(1) obtain pre post where
      split: "uploaded_files = pre @ file # post" and "file \<notin> set pre"
      by (auto dest: split_list_first)
    with others have "list_all accepted pre"
      by (auto simp: list_all_iff)
    with split first show ?thesis
      by blast
  qed
  have "uploaded_files \<noteq> []"
    using assms(1) by auto
  from l run_halted [OF this l] first only show ?thesis
    by blast
qed

theorem C8_schema_mismatch_witness:
  "file_B \<in> set [file_A, file_B]
   \<and> \<not> list_all (\<lambda>col. col \<in> set [''Date'', ''Amount'', ''Commission'', ''Vid'', ''Channel Type''])
          expected_columns
   \<and> list_all accepted [file_A]
   \<and> load [file_A, file_B] = Inl (Stop
        ''File bad.csv does not have the expected columns: Date, Amount, Commission, Vat, Vid, Channel Type'')
   \<and> run (\<lambda>s. Inl []) [file_A, file_B] [] [254499] [] =
       blank\<lparr>st_error := [''File bad.csv does not have the expected columns: Date, Amount, Commission, Vat, Vid, Channel Type'']\<rparr>"
proof -
  have h1: "file_B \<in> set [file_A, file_B]" by simp
  have h2: "read_csv file_B = Inr \<lparr>columns = [''Date'', ''Amount'', ''Commission'', ''Vid'', ''Channel Type''],
                              vid_dtype = Int64, rows = []\<rparr>"
    by (simp add: file_B_def)
  have h3: "\<not> list_all (\<lambda>col. col \<in> set (columns \<lparr>columns = [''Date'', ''Amount'', ''Commission'', ''Vid'', ''Channel Type''],
                              vid_dtype = Int64, rows = []\<rparr>)) expected_columns"
    by (simp add: expected_columns_def)
  have h4: "list_all accepted [file_A]"
    by (simp add: accepted_def file_A_def expected_columns_def)
  have n: "name file_B = ''bad.csv''"
    by (simp add: file_B_def)
  have "[file_A, file_B] = [file_A] @ file_B # []" by simp
  with C8_schema_mismatch [OF h1 h2 h3, of "\<lambda>s. Inl []" "[]" "[254499]" "[]"] h4
  have "load [file_A, file_B] = Inl (Stop (schema_mismatch (name file_B)))
          \<and> run (\<lambda>s. Inl []) [file_A, file_B] [] [254499] [] =
              blank\<lparr>st_error := [''File '' @ name file_B @
                '' does not have the expected columns: Date, Amount, Commission, Vat, Vid, Channel Type'']\<rparr>"
    by blast
  then show ?thesis
    using h1 h3 h4 by (simp add: n schema_mismatch_text)
qed





end
